theory Spec2Isabelle
  imports Complex_Main "HOL-Library.Multiset"
begin

section \<open>JavaScript strings\<close>

text \<open>
  A JavaScript string is modelled as a \<open>string\<close>: the list of its code units, so that
  \<open>length\<close> is \<open>str.length\<close>. \<open>toLowerCase\<close> is modelled on the letters A to Z; every
  other code unit is left as it is.
\<close>

definition toLowerCase_char :: "char \<Rightarrow> char" where
  "toLowerCase_char c =
     (let n = (of_char c :: nat) in if 65 \<le> n \<and> n \<le> 90 then char_of (n + 32) else c)"

definition toLowerCase :: "string \<Rightarrow> string" where
  "toLowerCase str = map toLowerCase_char str"

text \<open>\<open>Array.prototype.findIndex\<close>: the index of the first element that satisfies the
  callback, and -1 when there is none.\<close>

fun findIndex :: "('a \<Rightarrow> bool) \<Rightarrow> 'a list \<Rightarrow> int" where
  "findIndex p [] = - 1"
| "findIndex p (x # xs) =
     (if p x then 0 else (let i = findIndex p xs in if i < 0 then - 1 else i + 1))"

text \<open>\<open>str.indexOf(c)\<close> for a search string of one code unit.\<close>

definition indexOf :: "string \<Rightarrow> char \<Rightarrow> int" where
  "indexOf str c = findIndex (\<lambda>x. x = c) str"

text \<open>\<open>str.substring(start, end)\<close>: a negative argument counts as 0, an argument beyond the
  length as the length, and the two are swapped when the first is the larger.\<close>

definition substring :: "string \<Rightarrow> int \<Rightarrow> int \<Rightarrow> string" where
  "substring str start end' =
     (let a = min (nat start) (length str); b = min (nat end') (length str)
      in take (max a b - min a b) (drop (min a b) str))"

text \<open>The decimal digits of a number, as a template literal prints a non-negative integer.\<close>

fun string_of_nat :: "nat \<Rightarrow> string" where
  "string_of_nat n =
     (if n < 10 then [''0123456789'' ! n]
      else string_of_nat (n div 10) @ [''0123456789'' ! (n mod 10)])"

definition newline :: char where
  "newline = CHR 0x0A"

section \<open>Shortening the review body\<close>

text \<open>\<open>trunc(str, len)\<close>\<close>

definition trunc :: "string \<Rightarrow> nat \<Rightarrow> string" where
  "trunc str len = (if length str > len then substring str 0 (int len) @ ''...'' else str)"

text \<open>\<open>cutAtFirstNewline(str)\<close>\<close>

definition cutAtFirstNewline :: "string \<Rightarrow> string" where
  "cutAtFirstNewline str =
     (if indexOf str newline \<ge> 0 then substring str 0 (indexOf str newline) @ ''...''
      else str)"

text \<open>The sentence of the specification, word for word: cut at the first newline, if any, and
  append the ellipsis if a cut occurred; then, if the result exceeds 60 characters, cut to the
  first 60 and append the ellipsis again.\<close>

definition spec_newline_cut :: "string \<Rightarrow> string" where
  "spec_newline_cut str =
     (if newline \<in> set str then takeWhile (\<lambda>c. c \<noteq> newline) str @ ''...'' else str)"

definition spec_length_cut :: "string \<Rightarrow> string" where
  "spec_length_cut str = (if length str > 60 then take 60 str @ ''...'' else str)"

definition spec_truncation :: "string \<Rightarrow> string" where
  "spec_truncation str = spec_length_cut (spec_newline_cut str)"

section \<open>Webhook payloads\<close>

record label =
  name :: string

record user =
  login :: string
  avatar_url :: string
  html_url :: string

record base =
  ref :: string

text \<open>The pull request of a payload. \<open>merged_at\<close>, \<open>merged_by\<close> and \<open>closed_at\<close> are \<open>null\<close>
  (\<open>None\<close>) on a pull request that was not merged or is not closed.\<close>

record pull_request =
  pr_html_url :: string
  pr_title :: string
  created_at :: string
  number :: nat
  pr_user :: user
  labels :: "label list"
  merged :: bool
  merged_at :: "string option"
  merged_by :: "user option"
  closed_at :: "string option"
  base :: base

record repository =
  full_name :: string
  repo_html_url :: string

text \<open>A review. Its \<open>body\<close> is \<open>null\<close> (\<open>None\<close>) when the review was submitted without a
  comment.\<close>

record review =
  state :: string
  body :: "string option"
  review_user :: user
  submitted_at :: string

text \<open>\<open>context.payload\<close>, the only part of the context the handlers read. The payload of
  \<open>pull_request.labeled\<close> carries the label that was added, the payload of
  \<open>pull_request_review.submitted\<close> the review.\<close>

record payload =
  pull_request :: pull_request
  repository :: repository
  sender :: user

record labeled_payload = payload +
  label :: label

record review_payload = payload +
  review :: review

section \<open>Slack messages\<close>

text \<open>
  The number \<open>new Date(v) / 1000\<close>. \<open>Date\<close> is the runtime's. It is modelled, as ECMAScript
  defines the time value of a date-time string, for the strings the events supply: UTC
  timestamps of the form \<open>YYYY-MM-DDTHH:mm:ssZ\<close>, with or without the milliseconds \<open>.sss\<close>
  before the \<open>Z\<close>, that name a day of the calendar and a time of the day. The time value is
  the number of milliseconds since 1970-01-01T00:00:00Z.
\<close>

definition digit :: "char \<Rightarrow> nat option" where
  "digit c =
     (let n = (of_char c :: nat) in if 48 \<le> n \<and> n \<le> 57 then Some (n - 48) else None)"

fun decimal :: "nat \<Rightarrow> string \<Rightarrow> nat option" where
  "decimal acc [] = Some acc"
| "decimal acc (c # cs) =
     (case digit c of None \<Rightarrow> None | Some d \<Rightarrow> decimal (10 * acc + d) cs)"

text \<open>The number written in the \<open>len\<close> characters that follow the first \<open>start\<close> ones.\<close>

definition digits_at :: "string \<Rightarrow> nat \<Rightarrow> nat \<Rightarrow> nat option" where
  "digits_at s start len = decimal 0 (take len (drop start s))"

definition InLeapYear :: "nat \<Rightarrow> bool" where
  "InLeapYear y = (y mod 4 = 0 \<and> (y mod 100 \<noteq> 0 \<or> y mod 400 = 0))"

definition DayFromYear :: "nat \<Rightarrow> int" where
  "DayFromYear y =
     365 * (int y - 1970) + (int y - 1969) div 4 - (int y - 1901) div 100
       + (int y - 1601) div 400"

definition DaysInMonth :: "nat \<Rightarrow> nat \<Rightarrow> nat" where
  "DaysInMonth y m =
     (if m = 2 then (if InLeapYear y then 29 else 28)
      else if m = 4 \<or> m = 6 \<or> m = 9 \<or> m = 11 then 30 else 31)"

definition MakeDay :: "nat \<Rightarrow> nat \<Rightarrow> nat \<Rightarrow> int" where
  "MakeDay y m d = DayFromYear y + int (sum_list (map (DaysInMonth y) [1..<m])) + int d - 1"

definition MakeTime :: "nat \<Rightarrow> nat \<Rightarrow> nat \<Rightarrow> nat \<Rightarrow> int" where
  "MakeTime h mi sec ms = int h * 3600000 + int mi * 60000 + int sec * 1000 + int ms"

definition MakeDate :: "int \<Rightarrow> int \<Rightarrow> int" where
  "MakeDate day time = day * 86400000 + time"

text \<open>The time value of a timestamp of that form, and \<open>None\<close> for every other string.\<close>

definition Date_parse :: "string \<Rightarrow> int option" where
  "Date_parse s =
     (if (length s = 20 \<or> (length s = 24 \<and> s ! 19 = CHR ''.''))
         \<and> s ! 4 = CHR ''-'' \<and> s ! 7 = CHR ''-'' \<and> s ! 10 = CHR ''T''
         \<and> s ! 13 = CHR '':'' \<and> s ! 16 = CHR '':'' \<and> s ! (length s - 1) = CHR ''Z''
      then
        Option.bind (digits_at s 0 4) (\<lambda>y.
        Option.bind (digits_at s 5 2) (\<lambda>m.
        Option.bind (digits_at s 8 2) (\<lambda>d.
        Option.bind (digits_at s 11 2) (\<lambda>h.
        Option.bind (digits_at s 14 2) (\<lambda>mi.
        Option.bind (digits_at s 17 2) (\<lambda>sec.
        Option.bind (if length s = 24 then digits_at s 20 3 else Some 0) (\<lambda>ms.
          if 1 \<le> m \<and> m \<le> 12 \<and> 1 \<le> d \<and> d \<le> DaysInMonth y m
             \<and> h \<le> 23 \<and> mi \<le> 59 \<and> sec \<le> 59
          then Some (MakeDate (MakeDay y m d) (MakeTime h mi sec ms))
          else None)))))))
      else None)"

text \<open>
  A number of an attachment: \<open>Number q\<close> is the number \<open>q\<close>, and \<open>Unparsed s\<close> stands for
  \<open>new Date(s) / 1000\<close> where \<open>s\<close> is not a timestamp of the form above, which is left to the
  runtime. The quotient by 1000 is the exact one; no rounding function is applied to it.
  \<open>new Date(null)\<close> is the date of time value 0.
\<close>

datatype js_number = Number rat | Unparsed string

definition date_div_1000 :: "string option \<Rightarrow> js_number" where
  "date_div_1000 v =
     (case v of
        None \<Rightarrow> Number 0
      | Some s \<Rightarrow>
          (case Date_parse s of
             Some time_value \<Rightarrow> Number (of_int time_value / 1000)
           | None \<Rightarrow> Unparsed s))"

text \<open>An object literal whose keys are set one after the other: a key that is not set is
  \<open>None\<close>.\<close>

record attachment =
  color :: "string option"
  author_name :: "string option"
  author_icon :: "string option"
  author_link :: "string option"
  title :: "string option"
  title_link :: "string option"
  footer :: "string option"
  footer_icon :: "string option"
  ts :: "js_number option"
  att_text :: "string option"

record text_object =
  text_type :: string
  text_content :: string

record block =
  block_type :: string
  block_text :: text_object

record message =
  msg_text :: "string option"
  blocks :: "block list option"
  attachments :: "attachment list"
  channel :: "string option"

definition github_mark :: string where
  "github_mark = ''https://github.githubassets.com/images/modules/logos_page/GitHub-Mark.png''"

definition empty_attachment :: attachment where
  "empty_attachment =
     \<lparr>color = None, author_name = None, author_icon = None, author_link = None, title = None,
      title_link = None, footer = None, footer_icon = None, ts = None, att_text = None\<rparr>"

section \<open>The event handlers\<close>

text \<open>What a handler does: the lines it writes with \<open>app.log\<close> and its calls of
  \<open>sendSlackMessage\<close>, in order. Reading a property of \<open>null\<close> throws a \<open>TypeError\<close>.\<close>

datatype effect = AppLog string | SendSlackMessage message

datatype exception = TypeError

text \<open>\<open>const PR_LABEL = process.env.PR_LABEL.toLowerCase()\<close>; the argument is the value of
  the environment variable.\<close>

definition PR_LABEL :: "string \<Rightarrow> string" where
  "PR_LABEL env_PR_LABEL = toLowerCase env_PR_LABEL"

definition isTargeted :: "string \<Rightarrow> 'a payload_scheme \<Rightarrow> bool" where
  "isTargeted env p =
     (if findIndex (\<lambda>label. name label = PR_LABEL env) (labels (pull_request p)) < 0
      then False else True)"

definition handleLabeled :: "string \<Rightarrow> labeled_payload \<Rightarrow> exception + effect list" where
  "handleLabeled env p =
     (let labelName = name (label p) in
      if toLowerCase labelName \<noteq> PR_LABEL env then Inr []
      else
        (let repo = full_name (repository p);
             repoURL = repo_html_url (repository p);
             prURL = pr_html_url (pull_request p);
             prTitle = pr_title (pull_request p);
             prCreatedAt = created_at (pull_request p);
             prNumber = number (pull_request p);
             user = pr_user (pull_request p)
         in Inr
           [AppLog (''New \"'' @ PR_LABEL env @ ''\" labeled PR detected!''),
            SendSlackMessage
              \<lparr>msg_text = None,
               blocks = Some
                 [\<lparr>block_type = ''section'',
                   block_text =
                     \<lparr>text_type = ''mrkdwn'',
                      text_content =
                        login (sender p) @ '' is requesting a review in <'' @ repoURL @ ''|''
                          @ repo @ ''>''\<rparr>\<rparr>],
               attachments =
                 [\<lparr>color = Some ''#FFC107'',
                   author_name = Some (login user),
                   author_icon = Some (avatar_url user),
                   author_link = Some (html_url user),
                   title = Some (''#'' @ string_of_nat prNumber @ '' - '' @ prTitle),
                   title_link = Some prURL,
                   footer = Some repo,
                   footer_icon = Some github_mark,
                   ts = Some (date_div_1000 (Some prCreatedAt)),
                   att_text = None\<rparr>],
               channel = None\<rparr>]))"

definition handleClosed :: "string \<Rightarrow> 'a payload_scheme \<Rightarrow> exception + effect list" where
  "handleClosed env p =
     (if \<not> isTargeted env p then Inr []
      else
        (let prURL = pr_html_url (pull_request p);
             prNumber = number (pull_request p);
             mergedAt = merged_at (pull_request p);
             mergedBy = merged_by (pull_request p);
             wasMerged = merged (pull_request p);
             closedAt = closed_at (pull_request p);
             baseRef = ref (base (pull_request p));
             repo = full_name (repository p);
             attachment = empty_attachment
               \<lparr>color := Some ''#607D8B'',
                title_link := Some prURL,
                footer := Some repo,
                footer_icon := Some github_mark\<rparr>
         in if wasMerged then
              (case mergedBy of
                 None \<Rightarrow> Inl TypeError
               | Some mergedBy \<Rightarrow> Inr
                   [AppLog (''\"'' @ PR_LABEL env @ ''\" labeled PR #'' @ string_of_nat prNumber
                      @ '' in '' @ repo @ '' was merged by '' @ login mergedBy @ ''!''),
                    SendSlackMessage
                      \<lparr>msg_text = Some '''', blocks = None,
                       attachments =
                         [attachment
                            \<lparr>author_name := Some (login mergedBy),
                             author_icon := Some (avatar_url mergedBy),
                             author_link := Some (html_url mergedBy),
                             title := Some (''Merged #'' @ string_of_nat prNumber @ '' into ''
                               @ baseRef),
                             ts := Some (date_div_1000 mergedAt)\<rparr>],
                       channel = None\<rparr>])
            else Inr
              [AppLog (''\"'' @ PR_LABEL env @ ''\" labeled PR #'' @ string_of_nat prNumber
                 @ '' in '' @ repo @ '' was closed by '' @ login (sender p) @ ''.''),
               SendSlackMessage
                 \<lparr>msg_text = Some '''', blocks = None,
                  attachments =
                    [attachment
                       \<lparr>author_name := Some (login (sender p)),
                        author_icon := Some (avatar_url (sender p)),
                        author_link := Some (html_url (sender p)),
                        title := Some (''Closed #'' @ string_of_nat prNumber),
                        ts := Some (date_div_1000 closedAt)\<rparr>],
                  channel = None\<rparr>]))"

definition handleReopened :: "string \<Rightarrow> 'a payload_scheme \<Rightarrow> exception + effect list" where
  "handleReopened env p =
     (if \<not> isTargeted env p then Inr []
      else
        (let repo = full_name (repository p);
             prURL = pr_html_url (pull_request p);
             prTitle = pr_title (pull_request p);
             prCreatedAt = created_at (pull_request p);
             prNumber = number (pull_request p)
         in Inr
           [SendSlackMessage
              \<lparr>msg_text = Some '''', blocks = None,
               attachments =
                 [\<lparr>color = Some ''#FFC107'',
                   author_name = Some (login (sender p)),
                   author_icon = Some (avatar_url (sender p)),
                   author_link = Some (html_url (sender p)),
                   title = Some (''Reopened #'' @ string_of_nat prNumber @ '' - '' @ prTitle),
                   title_link = Some prURL,
                   footer = Some repo,
                   footer_icon = Some github_mark,
                   ts = Some (date_div_1000 (Some prCreatedAt)),
                   att_text = None\<rparr>],
               channel = None\<rparr>]))"

text \<open>The attachment is built before \<open>app.log\<close> and \<open>sendSlackMessage\<close> are called, and
  \<open>cutAtFirstNewline(null)\<close> reads \<open>indexOf\<close> of \<open>null\<close>: a review without a body throws.\<close>

definition handleReviewSubmitted :: "string \<Rightarrow> review_payload \<Rightarrow> exception + effect list" where
  "handleReviewSubmitted env p =
     (if \<not> isTargeted env p then Inr []
      else if state (review p) \<noteq> ''approved'' \<and> state (review p) \<noteq> ''changes_requested''
      then Inr []
      else
        (let reviewState = state (review p);
             reviewBody = body (review p);
             reviewUser = review_user (review p);
             reviewSubmittedAt = submitted_at (review p);
             repo = full_name (repository p);
             prURL = pr_html_url (pull_request p);
             prTitle = pr_title (pull_request p);
             prNumber = number (pull_request p)
         in case reviewBody of
              None \<Rightarrow> Inl TypeError
            | Some str \<Rightarrow>
              (let attachment = empty_attachment
                     \<lparr>author_name := Some (login reviewUser),
                      author_icon := Some (avatar_url reviewUser),
                      author_link := Some (html_url reviewUser),
                      title_link := Some prURL,
                      footer := Some repo,
                      footer_icon := Some github_mark,
                      ts := Some (date_div_1000 (Some reviewSubmittedAt)),
                      att_text := Some (trunc (cutAtFirstNewline str) 60)\<rparr>
               in if reviewState = ''approved'' then Inr
                    [AppLog (''\"'' @ PR_LABEL env @ ''\" labeled PR #'' @ string_of_nat prNumber
                       @ '' in '' @ repo @ '' was approved by '' @ login reviewUser @ ''!''),
                     SendSlackMessage
                       \<lparr>msg_text = Some '''', blocks = None,
                        attachments =
                          [attachment
                             \<lparr>color := Some ''#388E3C'',
                              title := Some (''Approved #'' @ string_of_nat prNumber @ '' - ''
                                @ prTitle)\<rparr>],
                        channel = None\<rparr>]
                  else if reviewState = ''changes_requested'' then Inr
                    [AppLog (''Changes were requested on \"'' @ PR_LABEL env @ ''\" labeled PR #''
                       @ string_of_nat prNumber @ '' in '' @ repo @ '' by '' @ login reviewUser),
                     SendSlackMessage
                       \<lparr>msg_text = Some '''', blocks = None,
                        attachments =
                          [attachment
                             \<lparr>color := Some ''#D33A49'',
                              title := Some (''Changes requested on #'' @ string_of_nat prNumber
                                @ '' - '' @ prTitle)\<rparr>],
                        channel = None\<rparr>]
                  else Inr
                    [SendSlackMessage
                       \<lparr>msg_text = Some '''', blocks = None, attachments = [attachment],
                        channel = None\<rparr>])))"

text \<open>The messages a handler passes to \<open>sendSlackMessage\<close>.\<close>

fun sent :: "exception + effect list \<Rightarrow> message list" where
  "sent (Inl e) = []"
| "sent (Inr []) = []"
| "sent (Inr (AppLog line # es)) = sent (Inr es)"
| "sent (Inr (SendSlackMessage msg # es)) = msg # sent (Inr es)"

text \<open>\<open>module.exports\<close>: one handler for each of the four events the application subscribes
  to. An event of any other name has no handler.\<close>

datatype webhook =
    pull_request_labeled labeled_payload
  | pull_request_closed payload
  | pull_request_reopened payload
  | pull_request_review_submitted review_payload
  | unhandled string

fun module_exports :: "string \<Rightarrow> webhook \<Rightarrow> exception + effect list" where
  "module_exports env (pull_request_labeled p) = handleLabeled env p"
| "module_exports env (pull_request_closed p) = handleClosed env p"
| "module_exports env (pull_request_reopened p) = handleReopened env p"
| "module_exports env (pull_request_review_submitted p) = handleReviewSubmitted env p"
| "module_exports env (unhandled event_name) = Inr []"

section \<open>The fan-out notifier\<close>

text \<open>A value that is thrown, pushed on \<open>errors\<close> or printed: an \<open>Error\<close> object with its
  message, or a string. \<open>template\<close> is its conversion in a template literal.\<close>

datatype js_value = ErrorObject string | StringValue string

fun template :: "js_value \<Rightarrow> string" where
  "template (ErrorObject m) = ''Error: '' @ m"
| "template (StringValue s) = s"

text \<open>What the promise of a Slack API call settles to.\<close>

datatype 'a settled = Rejected js_value | Fulfilled 'a

record slack_channel =
  channel_id :: string
  name_normalized :: string

record response =
  ok :: bool
  error :: string

record conversations_response = response +
  channels :: "slack_channel list"

text \<open>A \<open>WebClient\<close>: the token it was made from, and what its two methods answer.\<close>

record client =
  token :: string
  users_conversations :: "conversations_response settled"
  chat_postMessage :: "message \<Rightarrow> response settled"

text \<open>\<open>getChannels(client)\<close>: what its promise settles to, \<open>Inl\<close> the rejection.\<close>

definition getChannels :: "client \<Rightarrow> js_value + slack_channel list" where
  "getChannels client =
     (case users_conversations client of
        Rejected err \<Rightarrow>
          Inl (ErrorObject (''Could not retrieve list of channels: '' @ template err))
      | Fulfilled response \<Rightarrow>
          if \<not> ok response
          then Inl (ErrorObject (''Could not retrieve list of channels: ''
                 @ template (ErrorObject (error response))))
          else Inr (channels response))"

text \<open>
  \<open>sendSlackMessage\<close> passes \<open>async\<close> callbacks to \<open>forEach\<close>. A call of an \<open>async\<close> function
  runs until its first \<open>await\<close> and returns there, and \<open>forEach\<close> goes on to the next element;
  what follows the \<open>await\<close> runs in a later turn of the event loop, after the code that is
  running now has returned. The state of one call of \<open>sendSlackMessage\<close> is therefore the
  \<open>errors\<close> array, the lines printed by \<open>console.log\<close>, the API calls issued so far and the
  callbacks that are suspended at their \<open>await\<close>.
\<close>

datatype api_call = UsersConversations string | ChatPostMessage string message

datatype task =
    AwaitGetChannels client
  | AwaitPostMessage slack_channel "response settled"

record notifier =
  errors :: "js_value list"
  console :: "js_value list"
  calls :: "api_call list"
  pending :: "task list"

definition forEach :: "('a \<Rightarrow> 's \<Rightarrow> 's) \<Rightarrow> 'a list \<Rightarrow> 's \<Rightarrow> 's" where
  "forEach callback xs s = fold callback xs s"

definition console_log :: "js_value \<Rightarrow> notifier \<Rightarrow> notifier" where
  "console_log v s = s\<lparr>console := console s @ [v]\<rparr>"

definition errors_push :: "js_value \<Rightarrow> notifier \<Rightarrow> notifier" where
  "errors_push v s = s\<lparr>errors := errors s @ [v]\<rparr>"

text \<open>The callback of \<open>slackClients.forEach\<close> up to \<open>await getChannels(client)\<close>: the listing is
  requested and the callback is suspended.\<close>

definition client_callback :: "client \<Rightarrow> notifier \<Rightarrow> notifier" where
  "client_callback client s =
     s\<lparr>calls := calls s @ [UsersConversations (token client)],
       pending := pending s @ [AwaitGetChannels client]\<rparr>"

text \<open>The callback of \<open>channels.forEach\<close> up to \<open>await client.chat.postMessage(message)\<close>.\<close>

definition channel_callback :: "message \<Rightarrow> client \<Rightarrow> slack_channel \<Rightarrow> notifier \<Rightarrow> notifier" where
  "channel_callback msg client ch s =
     (let message = msg\<lparr>channel := Some (channel_id ch)\<rparr>
      in s\<lparr>calls := calls s @ [ChatPostMessage (token client) message],
           pending := pending s @ [AwaitPostMessage ch (chat_postMessage client message)]\<rparr>)"

text \<open>\<open>sendSlackMessage(msg)\<close> up to its return.\<close>

definition sendSlackMessage :: "client list \<Rightarrow> message \<Rightarrow> notifier" where
  "sendSlackMessage slackClients msg =
     (let s = forEach client_callback slackClients
                \<lparr>errors = [], console = [], calls = [], pending = []\<rparr>
      in if length (errors s) > 0 then forEach console_log (errors s) s else s)"

text \<open>A suspended callback goes on when the promise it awaits has settled.\<close>

fun resume :: "message \<Rightarrow> task \<Rightarrow> notifier \<Rightarrow> notifier" where
  "resume msg (AwaitGetChannels client) s =
     (case getChannels client of
        Inl err \<Rightarrow> errors_push err s
      | Inr chans \<Rightarrow> forEach (channel_callback msg client) chans s)"
| "resume msg (AwaitPostMessage ch result) s =
     (case result of
        Rejected err \<Rightarrow>
          errors_push (StringValue (''Unable to send message to slack channel ''
            @ name_normalized ch @ '': '' @ template err)) s
      | Fulfilled response \<Rightarrow>
          if \<not> ok response
          then errors_push (StringValue (''Unable to send message to slack channel ''
                 @ name_normalized ch @ '': '' @ template (ErrorObject (error response)))) s
          else s)"

text \<open>The event loop after \<open>sendSlackMessage\<close> has returned: any number of turns, each of
  which resumes one of the suspended callbacks, in any order.\<close>

inductive event_loop :: "message \<Rightarrow> notifier \<Rightarrow> notifier \<Rightarrow> bool" for msg :: message where
  idle: "event_loop msg s s"
| turn: "event_loop msg s s' \<Longrightarrow> i < length (pending s') \<Longrightarrow>
         event_loop msg s
           (resume msg (pending s' ! i)
              (s'\<lparr>pending := take i (pending s') @ drop (Suc i) (pending s')\<rparr>))"

code_pred event_loop .

text \<open>The number of turns a suspended callback still causes.\<close>

fun turns :: "task \<Rightarrow> nat" where
  "turns (AwaitGetChannels client) =
     (case getChannels client of Inl err \<Rightarrow> 1 | Inr chans \<Rightarrow> Suc (length chans))"
| "turns (AwaitPostMessage ch result) = 1"

text \<open>The run that resumes the callbacks in the order in which they were suspended, until
  none is left.\<close>

function drain :: "message \<Rightarrow> notifier \<Rightarrow> notifier" where
  "drain msg s =
     (case pending s of
        [] \<Rightarrow> s
      | t # rest \<Rightarrow> drain msg (resume msg t (s\<lparr>pending := rest\<rparr>)))"
  by pat_completeness auto
termination
proof (relation "measure (\<lambda>(msg, s). sum_list (map turns (pending s)))")
  show "wf (measure (\<lambda>(msg, s). sum_list (map turns (pending s))))"
    by simp
next
  fix msg :: message and s :: notifier and t :: task and rest :: "task list"
  assume p: "pending s = t # rest"
  have grow: "sum_list (map turns (pending (fold (channel_callback msg c) chans s0)))
                = sum_list (map turns (pending s0)) + length chans"
    for c chans s0
    by (induction chans arbitrary: s0) (simp_all add: channel_callback_def Let_def)
  have "sum_list (map turns (pending (resume msg t (s\<lparr>pending := rest\<rparr>))))
          < turns t + sum_list (map turns rest)"
  proof (cases t)
    case (AwaitGetChannels c)
    then show ?thesis
      by (cases "getChannels c") (simp_all add: errors_push_def forEach_def grow)
  next
    case (AwaitPostMessage ch result)
    then show ?thesis
      by (cases result) (simp_all add: errors_push_def)
  qed
  with p show "((msg, resume msg t (s\<lparr>pending := rest\<rparr>)), (msg, s))
                 \<in> measure (\<lambda>(msg, s). sum_list (map turns (pending s)))"
    by simp
qed

declare drain.simps [simp del]

section \<open>What a call of the notifier causes in the end\<close>

text \<open>The error a post attempt records when its promise has settled: none when the API
  accepted the call.\<close>

fun post_failure :: "slack_channel \<Rightarrow> response settled \<Rightarrow> js_value list" where
  "post_failure ch (Rejected err) =
     [StringValue (''Unable to send message to slack channel '' @ name_normalized ch @ '': ''
        @ template err)]"
| "post_failure ch (Fulfilled response) =
     (if \<not> ok response
      then [StringValue (''Unable to send message to slack channel '' @ name_normalized ch
              @ '': '' @ template (ErrorObject (error response)))]
      else [])"

text \<open>The post attempts and the errors of one workspace.\<close>

definition post_calls :: "message \<Rightarrow> client \<Rightarrow> api_call list" where
  "post_calls msg c =
     (case getChannels c of
        Inl err \<Rightarrow> []
      | Inr chans \<Rightarrow>
          map (\<lambda>ch. ChatPostMessage (token c) (msg\<lparr>channel := Some (channel_id ch)\<rparr>)) chans)"

definition failures :: "message \<Rightarrow> client \<Rightarrow> js_value list" where
  "failures msg c =
     (case getChannels c of
        Inl err \<Rightarrow> [err]
      | Inr chans \<Rightarrow>
          concat (map (\<lambda>ch. post_failure ch
            (chat_postMessage c (msg\<lparr>channel := Some (channel_id ch)\<rparr>))) chans))"

text \<open>The API calls and the errors a suspended callback still causes.\<close>

fun task_calls :: "message \<Rightarrow> task \<Rightarrow> api_call multiset" where
  "task_calls msg (AwaitGetChannels c) = mset (post_calls msg c)"
| "task_calls msg (AwaitPostMessage ch result) = {#}"

fun task_errors :: "message \<Rightarrow> task \<Rightarrow> js_value multiset" where
  "task_errors msg (AwaitGetChannels c) = mset (failures msg c)"
| "task_errors msg (AwaitPostMessage ch result) = mset (post_failure ch result)"

section \<open>Example events and workspaces\<close>

definition octocat :: user where
  "octocat =
     \<lparr>login = ''octocat'', avatar_url = ''https://avatars.example/u/1'',
      html_url = ''https://github.com/octocat''\<rparr>"

definition hubot :: user where
  "hubot =
     \<lparr>login = ''hubot'', avatar_url = ''https://avatars.example/u/2'',
      html_url = ''https://github.com/hubot''\<rparr>"

definition example_repository :: repository where
  "example_repository =
     \<lparr>full_name = ''acme/warp'', repo_html_url = ''https://github.com/acme/warp''\<rparr>"

text \<open>A merged pull request with the labels \<open>lbls\<close>.\<close>

definition example_pull_request :: "label list \<Rightarrow> pull_request" where
  "example_pull_request lbls =
     \<lparr>pr_html_url = ''https://github.com/acme/warp/pull/42'',
      pr_title = ''Add warp core'',
      created_at = ''2024-01-01T00:00:00Z'',
      number = 42,
      pr_user = octocat,
      labels = lbls,
      merged = True,
      merged_at = Some ''2024-01-02T10:00:00Z'',
      merged_by = Some hubot,
      closed_at = Some ''2024-01-02T10:00:00Z'',
      base = \<lparr>ref = ''main''\<rparr>\<rparr>"


definition example_payload :: "pull_request \<Rightarrow> payload" where
  "example_payload pr = \<lparr>pull_request = pr, repository = example_repository, sender = octocat\<rparr>"

definition example_labeled_payload :: "string \<Rightarrow> label list \<Rightarrow> labeled_payload" where
  "example_labeled_payload added lbls =
     \<lparr>pull_request = example_pull_request lbls, repository = example_repository,
      sender = octocat, label = \<lparr>name = added\<rparr>\<rparr>"

definition example_review_payload ::
  "label list \<Rightarrow> string \<Rightarrow> string option \<Rightarrow> review_payload" where
  "example_review_payload lbls review_state review_body =
     \<lparr>pull_request = example_pull_request lbls, repository = example_repository,
      sender = hubot,
      review =
        \<lparr>state = review_state, body = review_body, review_user = hubot,
         submitted_at = ''2024-01-02T09:00:00Z''\<rparr>\<rparr>"

definition example_message :: message where
  "example_message = \<lparr>msg_text = Some '''', blocks = None, attachments = [], channel = None\<rparr>"

definition general :: slack_channel where
  "general = \<lparr>channel_id = ''C01'', name_normalized = ''general''\<rparr>"

definition reviews :: slack_channel where
  "reviews = \<lparr>channel_id = ''C02'', name_normalized = ''reviews''\<rparr>"

text \<open>A workspace whose channel listing is rejected.\<close>

definition first_workspace :: client where
  "first_workspace =
     \<lparr>token = ''xoxb-1'',
      users_conversations = Rejected (ErrorObject ''invalid_auth''),
      chat_postMessage = (\<lambda>m. Fulfilled \<lparr>ok = True, error = ''''\<rparr>)\<rparr>"

text \<open>A workspace with two channels; the post to the first one is rejected.\<close>

definition second_workspace :: client where
  "second_workspace =
     \<lparr>token = ''xoxb-2'',
      users_conversations = Fulfilled \<lparr>ok = True, error = '''', channels = [general, reviews]\<rparr>,
      chat_postMessage =
        (\<lambda>m. if channel m = Some ''C01'' then Rejected (ErrorObject ''channel_not_found'')
             else Fulfilled \<lparr>ok = True, error = ''''\<rparr>)\<rparr>"

section \<open>Strings\<close>

lemma toLowerCase_char_idem: "toLowerCase_char (toLowerCase_char c) = toLowerCase_char c"
  by (auto simp: toLowerCase_char_def Let_def)

lemma toLowerCase_idem: "toLowerCase (toLowerCase s) = toLowerCase s"
  by (simp add: toLowerCase_def toLowerCase_char_idem)

lemma findIndex_ge: "- 1 \<le> findIndex p xs"
  by (induction xs) (auto simp: Let_def)

lemma findIndex_neg_iff: "findIndex p xs < 0 \<longleftrightarrow> (\<forall>x\<in>set xs. \<not> p x)"
  using findIndex_ge [of p]
  by (induction xs) (auto simp: Let_def)

lemma findIndex_takeWhile:
  "0 \<le> findIndex p xs \<Longrightarrow> nat (findIndex p xs) = length (takeWhile (\<lambda>x. \<not> p x) xs)"
  by (induction xs) (auto simp: Let_def nat_add_distrib split: if_splits)

lemma substring_0: "substring str 0 n = take (nat n) str"
  by (simp add: substring_def Let_def min_def)

lemma cutAtFirstNewline_takeWhile: "cutAtFirstNewline str = spec_newline_cut str"
proof (cases "newline \<in> set str")
  case True
  then have "\<not> findIndex (\<lambda>x. x = newline) str < 0"
    by (auto simp: findIndex_neg_iff)
  then have nonneg: "0 \<le> indexOf str newline"
    by (simp add: indexOf_def)
  then have "nat (indexOf str newline) = length (takeWhile (\<lambda>x. x \<noteq> newline) str)"
    unfolding indexOf_def by (rule findIndex_takeWhile)
  then have "substring str 0 (indexOf str newline) = takeWhile (\<lambda>x. x \<noteq> newline) str"
    by (simp add: substring_0 takeWhile_eq_take [symmetric])
  with True nonneg show ?thesis
    by (simp add: cutAtFirstNewline_def spec_newline_cut_def)
next
  case False
  then have "findIndex (\<lambda>x. x = newline) str < 0"
    by (auto simp: findIndex_neg_iff)
  with False show ?thesis
    by (simp add: cutAtFirstNewline_def spec_newline_cut_def indexOf_def)
qed

lemma trunc_60_take: "trunc str 60 = spec_length_cut str"
  by (simp add: trunc_def spec_length_cut_def substring_0)

lemma trunc_length: "length (trunc str len) \<le> len + 3"
  by (simp add: trunc_def substring_0)


section \<open>Targeting\<close>

lemma PR_LABEL_Tuvix: "PR_LABEL ''Tuvix'' = ''tuvix''"
  by code_simp

lemma toLowerCase_Tuvix: "toLowerCase ''Tuvix'' = ''tuvix''"
  by code_simp

lemma toLowerCase_TUVIX: "toLowerCase ''TUVIX'' = ''tuvix''"
  by code_simp

lemma toLowerCase_bug: "toLowerCase ''bug'' = ''bug''"
  by code_simp

lemma PR_LABEL_lower: "toLowerCase (PR_LABEL env) = toLowerCase env"
  by (simp add: PR_LABEL_def toLowerCase_idem)

lemma isTargeted_iff:
  "isTargeted env p \<longleftrightarrow> (\<exists>l\<in>set (labels (pull_request p)). name l = PR_LABEL env)"
  by (simp add: isTargeted_def findIndex_neg_iff)

lemma isTargeted_insensitive:
  assumes "isTargeted env p"
  shows "\<exists>l\<in>set (labels (pull_request p)). toLowerCase (name l) = toLowerCase env"
proof -
  from assms obtain l where l: "l \<in> set (labels (pull_request p))" "name l = PR_LABEL env"
    by (auto simp: isTargeted_iff)
  then have "toLowerCase (name l) = toLowerCase env"
    by (simp add: PR_LABEL_lower)
  with l show ?thesis by blast
qed

lemma not_targeted:
  assumes "\<forall>l\<in>set (labels (pull_request p)). toLowerCase (name l) \<noteq> toLowerCase env"
  shows "\<not> isTargeted env p"
  using assms isTargeted_insensitive [of env p] by blast



lemma isTargeted_example_review:
  "isTargeted ''Tuvix'' (example_review_payload [\<lparr>name = ''bug''\<rparr>, \<lparr>name = ''tuvix''\<rparr>] st b)"
  by (simp add: isTargeted_def PR_LABEL_Tuvix example_review_payload_def
      example_pull_request_def)

section \<open>The event loop\<close>

lemma fold_client_callback:
  "fold client_callback cs s =
     s\<lparr>calls := calls s @ map (\<lambda>c. UsersConversations (token c)) cs,
       pending := pending s @ map AwaitGetChannels cs\<rparr>"
  by (induction cs arbitrary: s) (simp_all add: client_callback_def)

lemma sendSlackMessage_returns:
  "sendSlackMessage cs msg =
     \<lparr>errors = [], console = [], calls = map (\<lambda>c. UsersConversations (token c)) cs,
      pending = map AwaitGetChannels cs\<rparr>"
  by (simp add: sendSlackMessage_def forEach_def fold_client_callback Let_def)

lemma fold_channel_callback:
  "fold (channel_callback msg c) chans s =
     s\<lparr>calls := calls s
         @ map (\<lambda>ch. ChatPostMessage (token c) (msg\<lparr>channel := Some (channel_id ch)\<rparr>)) chans,
       pending := pending s
         @ map (\<lambda>ch. AwaitPostMessage ch
             (chat_postMessage c (msg\<lparr>channel := Some (channel_id ch)\<rparr>))) chans\<rparr>"
  by (induction chans arbitrary: s) (simp_all add: channel_callback_def Let_def)

lemma resume_post:
  "resume msg (AwaitPostMessage ch result) s = s\<lparr>errors := errors s @ post_failure ch result\<rparr>"
  by (cases result) (simp_all add: errors_push_def)

lemma resume_console: "console (resume msg t s) = console s"
proof (cases t)
  case (AwaitGetChannels c)
  then show ?thesis
    by (cases "getChannels c") (simp_all add: errors_push_def forEach_def fold_channel_callback)
next
  case (AwaitPostMessage ch result)
  then show ?thesis by (simp add: resume_post del: resume.simps)
qed

lemma event_loop_console: "event_loop msg s s' \<Longrightarrow> console s' = console s"
  by (induction rule: event_loop.induct) (simp_all add: resume_console)

lemma sendSlackMessage_never_logs:
  "event_loop msg (sendSlackMessage cs msg) s \<Longrightarrow> console s = []"
  by (simp add: event_loop_console sendSlackMessage_returns)

lemma sum_task_errors_posts:
  "sum_list (map (task_errors msg \<circ> (\<lambda>ch. AwaitPostMessage ch (f ch))) chans)
     = mset (concat (map (\<lambda>ch. post_failure ch (f ch)) chans))"
  by (induction chans) simp_all

lemma sum_task_calls_posts:
  "sum_list (map (task_calls msg \<circ> (\<lambda>ch. AwaitPostMessage ch (f ch))) chans) = {#}"
  by (induction chans) simp_all

lemma resume_calls:
  "mset (calls (resume msg t s)) + sum_list (map (task_calls msg) (pending (resume msg t s)))
     = mset (calls s) + sum_list (map (task_calls msg) (pending s)) + task_calls msg t"
proof (cases t)
  case (AwaitGetChannels c)
  then show ?thesis
    by (cases "getChannels c")
      (simp_all add: errors_push_def forEach_def fold_channel_callback post_calls_def
        sum_task_calls_posts)
next
  case (AwaitPostMessage ch result)
  then show ?thesis by (simp add: resume_post del: resume.simps)
qed

lemma resume_errors:
  "mset (errors (resume msg t s)) + sum_list (map (task_errors msg) (pending (resume msg t s)))
     = mset (errors s) + sum_list (map (task_errors msg) (pending s)) + task_errors msg t"
proof (cases t)
  case (AwaitGetChannels c)
  then show ?thesis
    by (cases "getChannels c")
      (simp_all add: errors_push_def forEach_def fold_channel_callback failures_def
        sum_task_errors_posts)
next
  case (AwaitPostMessage ch result)
  then show ?thesis by (simp add: resume_post del: resume.simps)
qed

lemma sum_list_remove_nth:
  fixes f :: "'a \<Rightarrow> 'b multiset"
  assumes "i < length q"
  shows "sum_list (map f (take i q @ drop (Suc i) q)) + f (q ! i) = sum_list (map f q)"
proof -
  have "sum_list (map f q) = sum_list (map f (take i q @ q ! i # drop (Suc i) q))"
    using assms by (simp add: id_take_nth_drop [symmetric])
  then show ?thesis by simp
qed

text \<open>What has been done and what the suspended callbacks will still do add up to the same
  at every turn.\<close>

lemma event_loop_calls:
  "event_loop msg s s' \<Longrightarrow>
     mset (calls s') + sum_list (map (task_calls msg) (pending s'))
       = mset (calls s) + sum_list (map (task_calls msg) (pending s))"
proof (induction rule: event_loop.induct)
  case (idle s)
  show ?case by simp
next
  case (turn s s' i)
  let ?q = "take i (pending s') @ drop (Suc i) (pending s')"
  let ?r = "resume msg (pending s' ! i) (s'\<lparr>pending := ?q\<rparr>)"
  have "mset (calls ?r) + sum_list (map (task_calls msg) (pending ?r))
        = mset (calls s') + (sum_list (map (task_calls msg) ?q) + task_calls msg (pending s' ! i))"
    by (simp add: resume_calls)
  also have "\<dots> = mset (calls s') + sum_list (map (task_calls msg) (pending s'))"
    using turn.hyps(2) by (simp only: sum_list_remove_nth)
  finally show ?case using turn.IH by simp
qed

lemma event_loop_errors:
  "event_loop msg s s' \<Longrightarrow>
     mset (errors s') + sum_list (map (task_errors msg) (pending s'))
       = mset (errors s) + sum_list (map (task_errors msg) (pending s))"
proof (induction rule: event_loop.induct)
  case (idle s)
  show ?case by simp
next
  case (turn s s' i)
  let ?q = "take i (pending s') @ drop (Suc i) (pending s')"
  let ?r = "resume msg (pending s' ! i) (s'\<lparr>pending := ?q\<rparr>)"
  have "mset (errors ?r) + sum_list (map (task_errors msg) (pending ?r))
        = mset (errors s') + (sum_list (map (task_errors msg) ?q) + task_errors msg (pending s' ! i))"
    by (simp add: resume_errors)
  also have "\<dots> = mset (errors s') + sum_list (map (task_errors msg) (pending s'))"
    using turn.hyps(2) by (simp only: sum_list_remove_nth)
  finally show ?case using turn.IH by simp
qed

lemma sum_list_mset_concat:
  "sum_list (map (\<lambda>x. mset (f x)) xs) = mset (concat (map f xs))"
  by (induction xs) simp_all

lemma run_calls:
  assumes "event_loop msg (sendSlackMessage cs msg) s"
  shows "mset (calls s) + sum_list (map (task_calls msg) (pending s))
           = mset (map (\<lambda>c. UsersConversations (token c)) cs @ concat (map (post_calls msg) cs))"
  using event_loop_calls [OF assms]
  by (simp add: sendSlackMessage_returns comp_def sum_list_mset_concat)

lemma complete_run_calls:
  assumes "event_loop msg (sendSlackMessage cs msg) s" and "pending s = []"
  shows "mset (calls s)
           = mset (map (\<lambda>c. UsersConversations (token c)) cs @ concat (map (post_calls msg) cs))"
  using run_calls [OF assms(1)] assms(2) by simp

lemma complete_run_errors:
  assumes "event_loop msg (sendSlackMessage cs msg) s" and "pending s = []"
  shows "mset (errors s) = mset (concat (map (failures msg) cs))"
  using event_loop_errors [OF assms(1)] assms(2)
  by (simp add: sendSlackMessage_returns comp_def sum_list_mset_concat)

text \<open>The run in the order of suspension is one of the runs of the event loop, and it
  leaves no callback suspended.\<close>

lemma drain_idle: "pending s = [] \<Longrightarrow> drain msg s = s"
  by (simp add: drain.simps)

lemma drain_turn:
  "pending s = t # rest \<Longrightarrow> drain msg s = drain msg (resume msg t (s\<lparr>pending := rest\<rparr>))"
  by (subst drain.simps) simp

lemma event_loop_trans:
  "event_loop msg s' s'' \<Longrightarrow> event_loop msg s s' \<Longrightarrow> event_loop msg s s''"
  by (induction rule: event_loop.induct) (auto intro: event_loop.turn)

lemma drain_event_loop: "event_loop msg s (drain msg s) \<and> pending (drain msg s) = []"
proof (induction msg s rule: drain.induct)
  case (1 msg s)
  show ?case
  proof (cases "pending s")
    case Nil
    then show ?thesis by (simp add: drain_idle event_loop.idle)
  next
    case (Cons t rest)
    have "event_loop msg s s" by (rule event_loop.idle)
    from event_loop.turn [OF this, of 0] Cons
    have "event_loop msg s (resume msg t (s\<lparr>pending := rest\<rparr>))"
      by simp
    with "1.IH" [OF Cons] Cons show ?thesis
      by (auto simp: drain_turn intro: event_loop_trans)
  qed
qed

lemma post_calls_mem:
  assumes "ChatPostMessage tok m \<in> set (post_calls msg c)"
  shows "token c = tok \<and>
         (\<exists>chans. getChannels c = Inr chans \<and>
            (\<exists>ch\<in>set chans. m = msg\<lparr>channel := Some (channel_id ch)\<rparr>))"
  using assms by (cases "getChannels c") (auto simp: post_calls_def)

lemma run_posts:
  assumes "event_loop msg (sendSlackMessage cs msg) s"
    and "ChatPostMessage tok m \<in> set (calls s)"
  shows "\<exists>c\<in>set cs. ChatPostMessage tok m \<in> set (post_calls msg c)"
proof -
  from assms(2) have "ChatPostMessage tok m \<in># mset (calls s)
      + sum_list (map (task_calls msg) (pending s))"
    by simp
  then have "ChatPostMessage tok m
      \<in># mset (map (\<lambda>c. UsersConversations (token c)) cs @ concat (map (post_calls msg) cs))"
    by (simp only: run_calls [OF assms(1)])
  then show ?thesis by auto
qed

lemma complete_run_calls_set:
  assumes "event_loop msg (sendSlackMessage cs msg) s" and "pending s = []"
  shows "set (calls s)
           = (\<lambda>c. UsersConversations (token c)) ` set cs \<union> (\<Union>c\<in>set cs. set (post_calls msg c))"
  using mset_eq_setD [OF complete_run_calls [OF assms]] by simp

lemma complete_run_errors_set:
  assumes "event_loop msg (sendSlackMessage cs msg) s" and "pending s = []"
  shows "set (errors s) = (\<Union>c\<in>set cs. set (failures msg c))"
  using mset_eq_setD [OF complete_run_errors [OF assms]] by simp

text \<open>The two example workspaces, run to the end.\<close>

lemma getChannels_first_workspace:
  "getChannels first_workspace
     = Inl (ErrorObject ''Could not retrieve list of channels: Error: invalid_auth'')"
  by (simp add: getChannels_def first_workspace_def)

lemma getChannels_second_workspace: "getChannels second_workspace = Inr [general, reviews]"
  by (simp add: getChannels_def second_workspace_def)

lemma drain_one_workspace:
  "drain msg (sendSlackMessage [first_workspace] msg)
     = \<lparr>errors = [ErrorObject ''Could not retrieve list of channels: Error: invalid_auth''],
        console = [],
        calls = [UsersConversations ''xoxb-1''],
        pending = []\<rparr>"
  by (simp add: sendSlackMessage_returns drain_turn drain_idle getChannels_first_workspace
      errors_push_def) (simp add: first_workspace_def)

lemma drain_two_workspaces:
  "drain msg (sendSlackMessage [first_workspace, second_workspace] msg)
     = \<lparr>errors =
          [ErrorObject ''Could not retrieve list of channels: Error: invalid_auth'',
           StringValue
             ''Unable to send message to slack channel general: Error: channel_not_found''],
        console = [],
        calls =
          [UsersConversations ''xoxb-1'', UsersConversations ''xoxb-2'',
           ChatPostMessage ''xoxb-2'' (msg\<lparr>channel := Some ''C01''\<rparr>),
           ChatPostMessage ''xoxb-2'' (msg\<lparr>channel := Some ''C02''\<rparr>)],
        pending = []\<rparr>"
  by (simp add: sendSlackMessage_returns drain_turn drain_idle getChannels_first_workspace
      getChannels_second_workspace errors_push_def forEach_def channel_callback_def Let_def
      resume_post del: resume.simps(2))
    (simp add: first_workspace_def second_workspace_def general_def reviews_def)

section \<open>The claims\<close>

subsection \<open>C3 and C10: the text of a review\<close>

text \<open>
  Claim C3. \<open>trunc\<close> after \<open>cutAtFirstNewline\<close>, with limit 60, is the truncation the
  specification describes: the body is cut at the first newline, with the ellipsis appended
  exactly when a newline was found, and the result is cut to its first 60 characters, with the
  ellipsis appended exactly when it was longer than 60. The body
  \<open>first line\<newline>second line\<close> gives \<open>first line...\<close>, a body of 70 characters without a newline
  gives its first 60 characters and the ellipsis, and a body of fewer than 60 characters
  without a newline is unchanged.
\<close>

theorem trunc_cutAtFirstNewline_spec:
  "trunc (cutAtFirstNewline str) 60 = spec_truncation str
   \<and> trunc (cutAtFirstNewline ''first line\<newline>second line'') 60 = ''first line...''
   \<and> (newline \<notin> set str \<and> length str = 70 \<longrightarrow>
        trunc (cutAtFirstNewline str) 60 = take 60 str @ ''...'')
   \<and> (newline \<notin> set str \<and> length str < 60 \<longrightarrow> trunc (cutAtFirstNewline str) 60 = str)"
proof -
  have "trunc (cutAtFirstNewline str) 60 = spec_truncation str"
    by (simp add: trunc_60_take cutAtFirstNewline_takeWhile spec_truncation_def)
  moreover have "spec_truncation ''first line\<newline>second line'' = ''first line...''"
    by (simp add: spec_truncation_def spec_newline_cut_def spec_length_cut_def newline_def)
  then have "trunc (cutAtFirstNewline ''first line\<newline>second line'') 60 = ''first line...''"
    by (simp add: trunc_60_take cutAtFirstNewline_takeWhile spec_truncation_def)
  ultimately show ?thesis
    by (simp add: spec_truncation_def spec_newline_cut_def spec_length_cut_def)
qed

theorem trunc_cutAtFirstNewline_spec_witness:
  "length (replicate 70 (CHR ''a'')) = 70
   \<and> trunc (cutAtFirstNewline (replicate 70 (CHR ''a''))) 60 = replicate 60 (CHR ''a'') @ ''...''
   \<and> length ''looks good to me'' < 60
   \<and> trunc (cutAtFirstNewline ''looks good to me'') 60 = ''looks good to me''"
proof -
  have long: "newline \<notin> set (replicate 70 (CHR ''a'')) \<and> length (replicate 70 (CHR ''a'')) = 70"
    by (simp add: newline_def)
  have short: "newline \<notin> set ''looks good to me'' \<and> length ''looks good to me'' < 60"
    by (simp add: newline_def)
  from trunc_cutAtFirstNewline_spec [of "replicate 70 (CHR ''a'')"] long
  have "trunc (cutAtFirstNewline (replicate 70 (CHR ''a''))) 60
          = take 60 (replicate 70 (CHR ''a'')) @ ''...''"
    by blast
  then have "trunc (cutAtFirstNewline (replicate 70 (CHR ''a''))) 60
          = replicate 60 (CHR ''a'') @ ''...''"
    by simp
  moreover from trunc_cutAtFirstNewline_spec [of "''looks good to me''"] short
  have "trunc (cutAtFirstNewline ''looks good to me'') 60 = ''looks good to me''"
    by blast
  ultimately show ?thesis using long short by blast
qed

text \<open>
  Claim C10. The text of a review message is at most 63 characters long. The limit of 60 is
  applied to the string the newline cut returns, its ellipsis included, and the ellipsis of the
  length cut comes after the 60 characters that are kept: a first line of 58 characters
  followed by a newline gives the 58 characters and five dots. An empty body gives the empty
  text, and the message is sent all the same.
\<close>

theorem review_text_length:
  "length (trunc (cutAtFirstNewline reviewBody) 60) \<le> 63
   \<and> trunc (cutAtFirstNewline reviewBody) 60
       = (if length (cutAtFirstNewline reviewBody) > 60
          then take 60 (cutAtFirstNewline reviewBody) @ ''...''
          else cutAtFirstNewline reviewBody)
   \<and> trunc (cutAtFirstNewline (replicate 58 (CHR ''a'') @ [newline] @ ''second line'')) 60
       = replicate 58 (CHR ''a'') @ ''.....''
   \<and> trunc (cutAtFirstNewline '''') 60 = ''''
   \<and> (isTargeted env p \<and> body (review p) = Some reviewBody
        \<and> (state (review p) = ''approved'' \<or> state (review p) = ''changes_requested'') \<longrightarrow>
       (\<exists>att. sent (handleReviewSubmitted env p)
                 = [\<lparr>msg_text = Some '''', blocks = None, attachments = [att], channel = None\<rparr>]
          \<and> att_text att = Some (trunc (cutAtFirstNewline reviewBody) 60)))"
proof -
  have "length (trunc (cutAtFirstNewline reviewBody) 60) \<le> 63"
    using trunc_length [of "cutAtFirstNewline reviewBody" 60] by simp
  moreover have "trunc (cutAtFirstNewline reviewBody) 60
       = (if length (cutAtFirstNewline reviewBody) > 60
          then take 60 (cutAtFirstNewline reviewBody) @ ''...''
          else cutAtFirstNewline reviewBody)"
    by (simp add: trunc_def substring_0)
  moreover have "trunc (cutAtFirstNewline (replicate 58 (CHR ''a'') @ [newline] @ ''second line'')) 60
       = replicate 58 (CHR ''a'') @ ''.....''"
    by code_simp
  moreover have "trunc (cutAtFirstNewline '''') 60 = ''''"
    by (simp add: trunc_def cutAtFirstNewline_def indexOf_def)
  moreover have "isTargeted env p \<and> body (review p) = Some reviewBody
        \<and> (state (review p) = ''approved'' \<or> state (review p) = ''changes_requested'') \<longrightarrow>
       (\<exists>att. sent (handleReviewSubmitted env p)
                 = [\<lparr>msg_text = Some '''', blocks = None, attachments = [att], channel = None\<rparr>]
          \<and> att_text att = Some (trunc (cutAtFirstNewline reviewBody) 60))"
    by (auto simp: handleReviewSubmitted_def Let_def empty_attachment_def)
  ultimately show ?thesis by blast
qed

theorem review_text_length_witness:
  "isTargeted ''Tuvix'' (example_review_payload [\<lparr>name = ''bug''\<rparr>, \<lparr>name = ''tuvix''\<rparr>] ''approved'' (Some ''''))
   \<and> (\<exists>att. sent (handleReviewSubmitted ''Tuvix''
                 (example_review_payload [\<lparr>name = ''bug''\<rparr>, \<lparr>name = ''tuvix''\<rparr>] ''approved'' (Some '''')))
                 = [\<lparr>msg_text = Some '''', blocks = None, attachments = [att], channel = None\<rparr>]
          \<and> att_text att = Some '''')"
proof -
  let ?p = "example_review_payload [\<lparr>name = ''bug''\<rparr>, \<lparr>name = ''tuvix''\<rparr>] ''approved'' (Some '''')"
  have h: "isTargeted ''Tuvix'' ?p \<and> body (review ?p) = Some '''' \<and> state (review ?p) = ''approved''"
    by (simp add: isTargeted_example_review) (simp add: example_review_payload_def)
  note t = review_text_length [of "''''" "''Tuvix''" ?p]
  from t have none: "trunc (cutAtFirstNewline '''') 60 = ''''"
    by blast
  from t h have "\<exists>att. sent (handleReviewSubmitted ''Tuvix'' ?p)
                 = [\<lparr>msg_text = Some '''', blocks = None, attachments = [att], channel = None\<rparr>]
          \<and> att_text att = Some (trunc (cutAtFirstNewline '''') 60)"
    by blast
  with none h show ?thesis by simp
qed

subsection \<open>C6: a label is added\<close>

text \<open>
  Claim C6. A \<open>labeled\<close> event produces a message if and only if the label named in the
  payload equals the target label up to the case of letters, and then exactly one, with an
  amber attachment and a section block that names the sender and the repository. The labels of
  the pull request are not consulted: replacing them changes nothing.
\<close>

theorem handleLabeled_label_only:
  "(sent (handleLabeled env p) \<noteq> [] \<longleftrightarrow> toLowerCase (name (label p)) = toLowerCase env)
   \<and> length (sent (handleLabeled env p)) \<le> 1
   \<and> handleLabeled env (p\<lparr>pull_request := (pull_request p)\<lparr>labels := ls\<rparr>\<rparr>) = handleLabeled env p
   \<and> (toLowerCase (name (label p)) = toLowerCase env \<longrightarrow>
        (\<exists>att. sent (handleLabeled env p)
           = [\<lparr>msg_text = None,
               blocks = Some
                 [\<lparr>block_type = ''section'',
                   block_text =
                     \<lparr>text_type = ''mrkdwn'',
                      text_content = login (sender p) @ '' is requesting a review in <''
                        @ repo_html_url (repository p) @ ''|'' @ full_name (repository p)
                        @ ''>''\<rparr>\<rparr>],
               attachments = [att], channel = None\<rparr>]
         \<and> color att = Some ''#FFC107''))"
  by (simp add: handleLabeled_def Let_def PR_LABEL_def)

theorem handleLabeled_label_only_witness:
  "sent (handleLabeled ''Tuvix'' (example_labeled_payload ''TUVIX'' [])) \<noteq> []
   \<and> sent (handleLabeled ''Tuvix'' (example_labeled_payload ''bug'' [\<lparr>name = ''tuvix''\<rparr>])) = []"
proof -
  have "toLowerCase (name (label (example_labeled_payload ''TUVIX'' []))) = toLowerCase ''Tuvix''"
    by (simp add: example_labeled_payload_def toLowerCase_TUVIX toLowerCase_Tuvix)
  with handleLabeled_label_only [of "''Tuvix''" "example_labeled_payload ''TUVIX'' []"]
  have yes: "sent (handleLabeled ''Tuvix'' (example_labeled_payload ''TUVIX'' [])) \<noteq> []"
    by blast
  have "toLowerCase (name (label (example_labeled_payload ''bug'' [\<lparr>name = ''tuvix''\<rparr>])))
          \<noteq> toLowerCase ''Tuvix''"
    by (simp add: example_labeled_payload_def toLowerCase_bug toLowerCase_Tuvix)
  with handleLabeled_label_only
    [of "''Tuvix''" "example_labeled_payload ''bug'' [\<lparr>name = ''tuvix''\<rparr>]"]
  have "sent (handleLabeled ''Tuvix'' (example_labeled_payload ''bug'' [\<lparr>name = ''tuvix''\<rparr>])) = []"
    by blast
  with yes show ?thesis by blast
qed

subsection \<open>C1: the label of the pull request\<close>

text \<open>
  Claim C1 says that a \<open>closed\<close>, \<open>reopened\<close> or \<open>review.submitted\<close> event produces a message
  if and only if a label of the pull request equals the target label up to the case of
  letters. A submitted review whose state is \<open>commented\<close> produces no message on a pull request
  that carries the target label: the handler returns for every state other than \<open>approved\<close>
  and \<open>changes_requested\<close>.
\<close>

theorem commented_review_counterexample:
  "labels (pull_request (example_review_payload [\<lparr>name = ''tuvix''\<rparr>] ''commented'' (Some ''nice'')))
     = [\<lparr>name = ''tuvix''\<rparr>]
   \<and> toLowerCase ''tuvix'' = toLowerCase ''Tuvix''
   \<and> handleReviewSubmitted ''Tuvix''
        (example_review_payload [\<lparr>name = ''tuvix''\<rparr>] ''commented'' (Some ''nice'')) = Inr []"
proof -
  have "toLowerCase ''tuvix'' = toLowerCase ''Tuvix''"
    by code_simp
  then show ?thesis
    by (simp add: handleReviewSubmitted_def example_review_payload_def example_pull_request_def)
qed

text \<open>
  Claim C1, amended. A \<open>closed\<close> or \<open>reopened\<close> event, and a \<open>review.submitted\<close> event whose
  state is \<open>approved\<close> or \<open>changes_requested\<close>, produces exactly one message when a label of the
  pull request is the lower-cased target label (for a merged pull request, when the payload
  names who merged it; for a review, when the review has a body); a \<open>review.submitted\<close> event
  of any other state produces none; and when
  no label of the pull request equals the target label up to the case of letters, none of the
  three handlers produces a message or does anything else.
\<close>

theorem targeted_event_messages:
  fixes p :: payload and r :: review_payload
  shows
  "((\<exists>l\<in>set (labels (pull_request p)). name l = PR_LABEL env)
      \<and> (merged (pull_request p) \<longrightarrow> merged_by (pull_request p) \<noteq> None)
      \<longrightarrow> length (sent (handleClosed env p)) = 1)
   \<and> ((\<exists>l\<in>set (labels (pull_request p)). name l = PR_LABEL env)
      \<longrightarrow> length (sent (handleReopened env p)) = 1)
   \<and> ((\<exists>l\<in>set (labels (pull_request r)). name l = PR_LABEL env)
      \<and> (state (review r) = ''approved'' \<or> state (review r) = ''changes_requested'')
      \<and> body (review r) \<noteq> None
      \<longrightarrow> length (sent (handleReviewSubmitted env r)) = 1)
   \<and> (state (review r) \<noteq> ''approved'' \<and> state (review r) \<noteq> ''changes_requested''
      \<longrightarrow> sent (handleReviewSubmitted env r) = [])
   \<and> ((\<forall>l\<in>set (labels (pull_request p)). toLowerCase (name l) \<noteq> toLowerCase env)
      \<longrightarrow> handleClosed env p = Inr [] \<and> handleReopened env p = Inr [])
   \<and> ((\<forall>l\<in>set (labels (pull_request r)). toLowerCase (name l) \<noteq> toLowerCase env)
      \<longrightarrow> handleReviewSubmitted env r = Inr [])"
proof -
  have closed: "length (sent (handleClosed env p)) = 1"
    if "\<exists>l\<in>set (labels (pull_request p)). name l = PR_LABEL env"
      and "merged (pull_request p) \<longrightarrow> merged_by (pull_request p) \<noteq> None"
  proof -
    from that(1) have "isTargeted env p" by (simp add: isTargeted_iff)
    with that(2) show ?thesis
      by (auto simp: handleClosed_def Let_def)
  qed
  have reopened: "length (sent (handleReopened env p)) = 1"
    if "\<exists>l\<in>set (labels (pull_request p)). name l = PR_LABEL env"
  proof -
    from that have "isTargeted env p" by (simp add: isTargeted_iff)
    then show ?thesis by (simp add: handleReopened_def Let_def)
  qed
  have review: "length (sent (handleReviewSubmitted env r)) = 1"
    if "\<exists>l\<in>set (labels (pull_request r)). name l = PR_LABEL env"
      and "state (review r) = ''approved'' \<or> state (review r) = ''changes_requested''"
      and "body (review r) \<noteq> None"
  proof -
    from that(1) have "isTargeted env r" by (simp add: isTargeted_iff)
    with that(2,3) show ?thesis
      by (auto simp: handleReviewSubmitted_def Let_def)
  qed
  have other: "sent (handleReviewSubmitted env r) = []"
    if "state (review r) \<noteq> ''approved'' \<and> state (review r) \<noteq> ''changes_requested''"
    using that by (simp add: handleReviewSubmitted_def)
  have absent: "handleClosed env p = Inr [] \<and> handleReopened env p = Inr []"
    if "\<forall>l\<in>set (labels (pull_request p)). toLowerCase (name l) \<noteq> toLowerCase env"
    using not_targeted [OF that] by (simp add: handleClosed_def handleReopened_def)
  have absent_review: "handleReviewSubmitted env r = Inr []"
    if "\<forall>l\<in>set (labels (pull_request r)). toLowerCase (name l) \<noteq> toLowerCase env"
    using not_targeted [OF that] by (simp add: handleReviewSubmitted_def)
  from closed reopened review other absent absent_review show ?thesis
    by blast
qed

theorem targeted_event_messages_witness:
  "length (sent (handleClosed ''Tuvix''
       (example_payload (example_pull_request [\<lparr>name = ''bug''\<rparr>, \<lparr>name = ''tuvix''\<rparr>])))) = 1
   \<and> length (sent (handleReopened ''Tuvix''
       (example_payload (example_pull_request [\<lparr>name = ''bug''\<rparr>, \<lparr>name = ''tuvix''\<rparr>])))) = 1
   \<and> length (sent (handleReviewSubmitted ''Tuvix''
       (example_review_payload [\<lparr>name = ''bug''\<rparr>, \<lparr>name = ''tuvix''\<rparr>] ''approved'' (Some ''nice'')))) = 1
   \<and> sent (handleReviewSubmitted ''Tuvix''
       (example_review_payload [\<lparr>name = ''bug''\<rparr>, \<lparr>name = ''tuvix''\<rparr>] ''commented'' (Some ''nice''))) = []
   \<and> handleClosed ''Tuvix'' (example_payload (example_pull_request [\<lparr>name = ''bug''\<rparr>])) = Inr []
   \<and> handleReopened ''Tuvix'' (example_payload (example_pull_request [\<lparr>name = ''bug''\<rparr>])) = Inr []
   \<and> handleReviewSubmitted ''Tuvix''
       (example_review_payload [\<lparr>name = ''bug''\<rparr>] ''approved'' (Some ''nice'')) = Inr []"
proof -
  let ?p = "example_payload (example_pull_request [\<lparr>name = ''bug''\<rparr>, \<lparr>name = ''tuvix''\<rparr>])"
  let ?r = "example_review_payload [\<lparr>name = ''bug''\<rparr>, \<lparr>name = ''tuvix''\<rparr>] ''approved'' (Some ''nice'')"
  let ?c = "example_review_payload [\<lparr>name = ''bug''\<rparr>, \<lparr>name = ''tuvix''\<rparr>] ''commented'' (Some ''nice'')"
  let ?q = "example_payload (example_pull_request [\<lparr>name = ''bug''\<rparr>])"
  let ?s = "example_review_payload [\<lparr>name = ''bug''\<rparr>] ''approved'' (Some ''nice'')"
  have p: "(\<exists>l\<in>set (labels (pull_request ?p)). name l = PR_LABEL ''Tuvix'')
      \<and> (merged (pull_request ?p) \<longrightarrow> merged_by (pull_request ?p) \<noteq> None)"
    by (simp add: PR_LABEL_Tuvix example_payload_def example_pull_request_def)
  have r: "(\<exists>l\<in>set (labels (pull_request ?r)). name l = PR_LABEL ''Tuvix'')
      \<and> (state (review ?r) = ''approved'' \<or> state (review ?r) = ''changes_requested'')
      \<and> body (review ?r) \<noteq> None"
    by (simp add: PR_LABEL_Tuvix example_review_payload_def example_pull_request_def)
  have c: "state (review ?c) \<noteq> ''approved'' \<and> state (review ?c) \<noteq> ''changes_requested''"
    by (simp add: example_review_payload_def)
  have q: "\<forall>l\<in>set (labels (pull_request ?q)). toLowerCase (name l) \<noteq> toLowerCase ''Tuvix''"
    by (simp add: example_payload_def example_pull_request_def toLowerCase_bug
        toLowerCase_Tuvix)
  have s: "\<forall>l\<in>set (labels (pull_request ?s)). toLowerCase (name l) \<noteq> toLowerCase ''Tuvix''"
    by (simp add: example_review_payload_def example_pull_request_def toLowerCase_bug
        toLowerCase_Tuvix)
  from targeted_event_messages [of ?p "''Tuvix''" ?r] p r
  have "length (sent (handleClosed ''Tuvix'' ?p)) = 1"
    and "length (sent (handleReopened ''Tuvix'' ?p)) = 1"
    and "length (sent (handleReviewSubmitted ''Tuvix'' ?r)) = 1"
    by blast+
  moreover from targeted_event_messages [of ?q "''Tuvix''" ?c] c q
  have "sent (handleReviewSubmitted ''Tuvix'' ?c) = []"
    and "handleClosed ''Tuvix'' ?q = Inr []"
    and "handleReopened ''Tuvix'' ?q = Inr []"
    by blast+
  moreover from targeted_event_messages [of ?q "''Tuvix''" ?s] s
  have "handleReviewSubmitted ''Tuvix'' ?s = Inr []"
    by blast
  ultimately show ?thesis by blast
qed

text \<open>
  The comparison in \<open>isTargeted\<close> is exact, while \<open>handleLabeled\<close> lower-cases the label that
  was added: with the target label \<open>tuvix\<close>, adding the label \<open>Tuvix\<close> announces the pull
  request, and closing the same pull request announces nothing.
\<close>

lemma isTargeted_is_case_sensitive:
  "sent (handleLabeled ''tuvix'' (example_labeled_payload ''Tuvix'' [\<lparr>name = ''Tuvix''\<rparr>])) \<noteq> []
   \<and> toLowerCase ''Tuvix'' = toLowerCase ''tuvix''
   \<and> \<not> isTargeted ''tuvix'' (example_payload (example_pull_request [\<lparr>name = ''Tuvix''\<rparr>]))
   \<and> handleClosed ''tuvix'' (example_payload (example_pull_request [\<lparr>name = ''Tuvix''\<rparr>])) = Inr []"
proof -
  have lower: "toLowerCase ''Tuvix'' = ''tuvix''" "toLowerCase ''tuvix'' = ''tuvix''"
    by code_simp+
  then have label: "PR_LABEL ''tuvix'' = ''tuvix''"
    by (simp add: PR_LABEL_def)
  have "sent (handleLabeled ''tuvix'' (example_labeled_payload ''Tuvix'' [\<lparr>name = ''Tuvix''\<rparr>])) \<noteq> []"
    by (simp add: handleLabeled_def Let_def label lower example_labeled_payload_def)
  moreover have "\<not> isTargeted ''tuvix'' (example_payload (example_pull_request [\<lparr>name = ''Tuvix''\<rparr>]))"
    by (simp add: isTargeted_def label example_payload_def example_pull_request_def)
  ultimately show ?thesis
    using lower by (simp add: handleClosed_def)
qed

subsection \<open>C5: a pull request is closed\<close>



subsection \<open>C7: a review is submitted\<close>

text \<open>
  Claim C7 says that, for a targeted \<open>review.submitted\<close> event, a review whose state is
  neither \<open>approved\<close> nor \<open>changes_requested\<close> produces no message, that the state \<open>approved\<close>
  gives the title \<open>Approved #N - title\<close> in green and the state \<open>changes_requested\<close> the title
  \<open>Changes requested on #N - title\<close> in red, attributed to the reviewer. An approval without a
  comment has the body \<open>null\<close>: on a pull request that carries the target label the handler
  throws while it builds the attachment, and no message is sent.
\<close>

theorem approved_review_without_body_throws:
  "isTargeted ''Tuvix'' (example_review_payload [\<lparr>name = ''tuvix''\<rparr>] ''approved'' None)
   \<and> state (review (example_review_payload [\<lparr>name = ''tuvix''\<rparr>] ''approved'' None))
       = ''approved''
   \<and> body (review (example_review_payload [\<lparr>name = ''tuvix''\<rparr>] ''approved'' None)) = None
   \<and> handleReviewSubmitted ''Tuvix''
        (example_review_payload [\<lparr>name = ''tuvix''\<rparr>] ''approved'' None) = Inl TypeError
   \<and> sent (handleReviewSubmitted ''Tuvix''
        (example_review_payload [\<lparr>name = ''tuvix''\<rparr>] ''approved'' None)) = []"
proof -
  have targeted:
    "isTargeted ''Tuvix'' (example_review_payload [\<lparr>name = ''tuvix''\<rparr>] ''approved'' None)"
    by (simp add: isTargeted_def PR_LABEL_Tuvix example_review_payload_def
        example_pull_request_def)
  then have "handleReviewSubmitted ''Tuvix''
        (example_review_payload [\<lparr>name = ''tuvix''\<rparr>] ''approved'' None) = Inl TypeError"
    by (simp add: handleReviewSubmitted_def Let_def) (simp add: example_review_payload_def)
  with targeted show ?thesis
    by (simp add: example_review_payload_def)
qed

theorem approved_review_without_body_throws_witness:
  "length (sent (handleReviewSubmitted ''Tuvix''
     (example_review_payload [\<lparr>name = ''tuvix''\<rparr>] ''approved'' None))) = 0"
  using approved_review_without_body_throws by simp

text \<open>
  For a review that has a body the handler does what the claim says: no message for a state
  other than \<open>approved\<close> and \<open>changes_requested\<close>, whatever the body, and for these two states
  the title, the colour and the reviewer's name, icon and link.
\<close>

lemma handleReviewSubmitted_with_body:
  assumes "isTargeted env p"
  shows "(state (review p) \<noteq> ''approved'' \<and> state (review p) \<noteq> ''changes_requested'' \<longrightarrow>
           handleReviewSubmitted env p = Inr [])
       \<and> (state (review p) = ''approved'' \<and> body (review p) \<noteq> None \<longrightarrow>
           (\<exists>att. sent (handleReviewSubmitted env p)
                    = [\<lparr>msg_text = Some '''', blocks = None, attachments = [att], channel = None\<rparr>]
              \<and> title att = Some (''Approved #'' @ string_of_nat (number (pull_request p))
                                    @ '' - '' @ pr_title (pull_request p))
              \<and> color att = Some ''#388E3C''
              \<and> author_name att = Some (login (review_user (review p)))
              \<and> author_icon att = Some (avatar_url (review_user (review p)))
              \<and> author_link att = Some (html_url (review_user (review p)))))
       \<and> (state (review p) = ''changes_requested'' \<and> body (review p) \<noteq> None \<longrightarrow>
           (\<exists>att. sent (handleReviewSubmitted env p)
                    = [\<lparr>msg_text = Some '''', blocks = None, attachments = [att], channel = None\<rparr>]
              \<and> title att = Some (''Changes requested on #''
                                    @ string_of_nat (number (pull_request p))
                                    @ '' - '' @ pr_title (pull_request p))
              \<and> color att = Some ''#D33A49''
              \<and> author_name att = Some (login (review_user (review p)))
              \<and> author_icon att = Some (avatar_url (review_user (review p)))
              \<and> author_link att = Some (html_url (review_user (review p)))))
       \<and> ((state (review p) = ''approved'' \<or> state (review p) = ''changes_requested'')
            \<and> body (review p) = None \<longrightarrow>
           handleReviewSubmitted env p = Inl TypeError)"
proof (cases "body (review p)")
  case None
  with assms show ?thesis
    by (simp add: handleReviewSubmitted_def Let_def)
next
  case (Some str)
  with assms show ?thesis
    by (simp add: handleReviewSubmitted_def Let_def empty_attachment_def)
qed

subsection \<open>C8: timestamps\<close>



subsection \<open>C2: the errors of a fan-out are not printed\<close>

text \<open>
  Claim C2 says that every error recorded during a fan-out is printed as a log line once all
  delivery attempts have completed, and that no error reaches the caller. With one workspace
  whose channel listing is rejected, the error is recorded and nothing is printed:
  \<open>sendSlackMessage\<close> looks at \<open>errors\<close> before any callback has gone past its first \<open>await\<close>,
  and never again.
\<close>

theorem recorded_error_is_not_printed:
  "errors (drain example_message (sendSlackMessage [first_workspace] example_message))
     = [ErrorObject ''Could not retrieve list of channels: Error: invalid_auth'']
   \<and> console (sendSlackMessage [first_workspace] example_message) = []
   \<and> console (drain example_message (sendSlackMessage [first_workspace] example_message)) = []"
  by (simp add: drain_one_workspace) (simp add: sendSlackMessage_returns)

theorem recorded_error_is_not_printed_witness:
  "length (errors (drain example_message (sendSlackMessage [first_workspace] example_message))) = 1
   \<and> length (console (drain example_message (sendSlackMessage [first_workspace] example_message)))
       = 0"
  using recorded_error_is_not_printed by simp

subsection \<open>C4: failures are isolated\<close>

text \<open>
  Claim C4. In a fan-out that has run to its end, in whatever order the callbacks were
  resumed: every channel of every workspace whose listing succeeded has been posted to, whatever
  failed elsewhere; a post that failed is recorded with the name of its channel; a listing that
  failed is recorded; and posts went only to channels of workspaces whose listing succeeded.
  With two workspaces, the listing of the first failing and one of the two posts of the second
  failing, the other channel of the second workspace receives the message.
\<close>

theorem fan_out_isolation:
  assumes "event_loop msg (sendSlackMessage slackClients msg) s"
    and "pending s = []"
    and "c \<in> set slackClients"
  shows "(getChannels c = Inr chans \<and> ch \<in> set chans \<longrightarrow>
           ChatPostMessage (token c) (msg\<lparr>channel := Some (channel_id ch)\<rparr>) \<in> set (calls s))
       \<and> (getChannels c = Inr chans \<and> ch \<in> set chans
            \<and> chat_postMessage c (msg\<lparr>channel := Some (channel_id ch)\<rparr>) = Rejected err \<longrightarrow>
           StringValue (''Unable to send message to slack channel '' @ name_normalized ch
             @ '': '' @ template err) \<in> set (errors s))
       \<and> (getChannels c = Inr chans \<and> ch \<in> set chans
            \<and> chat_postMessage c (msg\<lparr>channel := Some (channel_id ch)\<rparr>) = Fulfilled resp
            \<and> \<not> ok resp \<longrightarrow>
           StringValue (''Unable to send message to slack channel '' @ name_normalized ch
             @ '': '' @ template (ErrorObject (error resp))) \<in> set (errors s))
       \<and> (getChannels c = Inl err \<longrightarrow> err \<in> set (errors s))
       \<and> (ChatPostMessage tok m \<in> set (calls s) \<longrightarrow>
           (\<exists>c'\<in>set slackClients. token c' = tok \<and>
              (\<exists>chans'. getChannels c' = Inr chans' \<and>
                 (\<exists>ch'\<in>set chans'. m = msg\<lparr>channel := Some (channel_id ch')\<rparr>))))"
proof -
  note calls = complete_run_calls_set [OF assms(1,2)]
  note errs = complete_run_errors_set [OF assms(1,2)]
  have posted: "ChatPostMessage (token c) (msg\<lparr>channel := Some (channel_id ch)\<rparr>) \<in> set (calls s)"
    if "getChannels c = Inr chans" and "ch \<in> set chans"
  proof -
    from that have "ChatPostMessage (token c) (msg\<lparr>channel := Some (channel_id ch)\<rparr>)
        \<in> set (post_calls msg c)"
      by (simp add: post_calls_def)
    with assms(3) show ?thesis
      unfolding calls by blast
  qed
  have failed: "set (post_failure ch (chat_postMessage c (msg\<lparr>channel := Some (channel_id ch)\<rparr>)))
      \<subseteq> set (errors s)"
    if "getChannels c = Inr chans" and "ch \<in> set chans"
  proof -
    from that
    have "set (post_failure ch (chat_postMessage c (msg\<lparr>channel := Some (channel_id ch)\<rparr>)))
        \<subseteq> set (failures msg c)"
      by (auto simp: failures_def)
    with assms(3) show ?thesis
      unfolding errs by blast
  qed
  have rejected: "StringValue (''Unable to send message to slack channel '' @ name_normalized ch
             @ '': '' @ template err) \<in> set (errors s)"
    if "getChannels c = Inr chans" and "ch \<in> set chans"
      and "chat_postMessage c (msg\<lparr>channel := Some (channel_id ch)\<rparr>) = Rejected err"
    using failed [OF that(1,2)] that(3) by simp
  have refused: "StringValue (''Unable to send message to slack channel '' @ name_normalized ch
             @ '': '' @ template (ErrorObject (error resp))) \<in> set (errors s)"
    if "getChannels c = Inr chans" and "ch \<in> set chans"
      and "chat_postMessage c (msg\<lparr>channel := Some (channel_id ch)\<rparr>) = Fulfilled resp"
      and "\<not> ok resp"
    using failed [OF that(1,2)] that(3,4) by simp
  have listing: "err \<in> set (errors s)" if "getChannels c = Inl err"
  proof -
    from that have "err \<in> set (failures msg c)"
      by (simp add: failures_def)
    with assms(3) show ?thesis
      unfolding errs by blast
  qed
  have only: "\<exists>c'\<in>set slackClients. token c' = tok \<and>
              (\<exists>chans'. getChannels c' = Inr chans' \<and>
                 (\<exists>ch'\<in>set chans'. m = msg\<lparr>channel := Some (channel_id ch')\<rparr>))"
    if "ChatPostMessage tok m \<in> set (calls s)"
    using run_posts [OF assms(1) that] post_calls_mem by blast
  from posted rejected refused listing only show ?thesis
    by blast
qed

theorem fan_out_isolation_witness:
  "ChatPostMessage ''xoxb-2'' (example_message\<lparr>channel := Some ''C02''\<rparr>)
     \<in> set (calls (drain example_message
         (sendSlackMessage [first_workspace, second_workspace] example_message)))
   \<and> chat_postMessage second_workspace (example_message\<lparr>channel := Some ''C02''\<rparr>)
       = Fulfilled \<lparr>ok = True, error = ''''\<rparr>
   \<and> StringValue ''Unable to send message to slack channel general: Error: channel_not_found''
     \<in> set (errors (drain example_message
         (sendSlackMessage [first_workspace, second_workspace] example_message)))
   \<and> ErrorObject ''Could not retrieve list of channels: Error: invalid_auth''
     \<in> set (errors (drain example_message
         (sendSlackMessage [first_workspace, second_workspace] example_message)))
   \<and> length (errors (drain example_message
         (sendSlackMessage [first_workspace, second_workspace] example_message))) = 2"
proof -
  let ?cs = "[first_workspace, second_workspace]"
  let ?s = "drain example_message (sendSlackMessage ?cs example_message)"
  have run: "event_loop example_message (sendSlackMessage ?cs example_message) ?s"
    and finished: "pending ?s = []"
    using drain_event_loop [of example_message "sendSlackMessage ?cs example_message"]
    by blast+
  have first: "first_workspace \<in> set ?cs" and second: "second_workspace \<in> set ?cs"
    by simp_all
  have general: "general \<in> set [general, reviews]" and reviews: "reviews \<in> set [general, reviews]"
    by simp_all
  have ok: "chat_postMessage second_workspace (example_message\<lparr>channel := Some ''C02''\<rparr>)
       = Fulfilled \<lparr>ok = True, error = ''''\<rparr>"
    by (simp add: second_workspace_def)
  have ko: "chat_postMessage second_workspace
        (example_message\<lparr>channel := Some (channel_id general)\<rparr>)
       = Rejected (ErrorObject ''channel_not_found'')"
    by (simp add: second_workspace_def general_def)
  from fan_out_isolation [OF run finished second, of "[general, reviews]" reviews]
    getChannels_second_workspace reviews
  have "ChatPostMessage (token second_workspace)
          (example_message\<lparr>channel := Some (channel_id reviews)\<rparr>) \<in> set (calls ?s)"
    by blast
  then have a: "ChatPostMessage ''xoxb-2'' (example_message\<lparr>channel := Some ''C02''\<rparr>)
      \<in> set (calls ?s)"
    by (simp add: second_workspace_def reviews_def)
  from fan_out_isolation
    [OF run finished second, of "[general, reviews]" general "ErrorObject ''channel_not_found''"]
    getChannels_second_workspace general ko
  have "StringValue (''Unable to send message to slack channel '' @ name_normalized general
             @ '': '' @ template (ErrorObject ''channel_not_found'')) \<in> set (errors ?s)"
    by blast
  then have b: "StringValue
      ''Unable to send message to slack channel general: Error: channel_not_found''
      \<in> set (errors ?s)"
    by (simp add: general_def)
  from fan_out_isolation
    [OF run finished first,
      of _ _ "ErrorObject ''Could not retrieve list of channels: Error: invalid_auth''"]
    getChannels_first_workspace
  have c: "ErrorObject ''Could not retrieve list of channels: Error: invalid_auth''
      \<in> set (errors ?s)"
    by blast
  have "length (errors ?s) = 2"
    by (simp add: drain_two_workspaces)
  with a b c ok show ?thesis by blast
qed

subsection \<open>C9: one message, the same for every channel\<close>

text \<open>
  Claim C9. An event makes its handler call \<open>sendSlackMessage\<close> at most once, with a message
  that has no channel; and every post of a fan-out carries the message it was called with,
  changed in nothing but the channel, which is the id of the channel posted to.
\<close>

theorem one_message_for_all_channels:
  "length (sent (module_exports env ev)) \<le> 1
   \<and> (\<forall>msg\<in>set (sent (module_exports env ev)). channel msg = None)
   \<and> (event_loop msg (sendSlackMessage slackClients msg) s
        \<and> ChatPostMessage tok m \<in> set (calls s) \<longrightarrow>
      (\<exists>ch :: slack_channel. m = msg\<lparr>channel := Some (channel_id ch)\<rparr>))"
proof -
  have one: "length (sent (module_exports env ev)) \<le> 1
      \<and> (\<forall>msg\<in>set (sent (module_exports env ev)). channel msg = None)"
  proof (cases ev)
    case (pull_request_labeled p)
    then show ?thesis by (simp add: handleLabeled_def Let_def)
  next
    case (pull_request_closed p)
    then show ?thesis
      by (cases "merged_by (pull_request p)") (simp_all add: handleClosed_def Let_def)
  next
    case (pull_request_reopened p)
    then show ?thesis by (simp add: handleReopened_def Let_def)
  next
    case (pull_request_review_submitted p)
    then show ?thesis
      by (cases "body (review p)") (simp_all add: handleReviewSubmitted_def Let_def)
  next
    case (unhandled event_name)
    then show ?thesis by simp
  qed
  have same: "\<exists>ch :: slack_channel. m = msg\<lparr>channel := Some (channel_id ch)\<rparr>"
    if "event_loop msg (sendSlackMessage slackClients msg) s"
      and "ChatPostMessage tok m \<in> set (calls s)"
  proof -
    from run_posts [OF that] obtain c
      where "ChatPostMessage tok m \<in> set (post_calls msg c)"
      by blast
    from post_calls_mem [OF this] obtain chans ch
      where "getChannels c = Inr chans" and "ch \<in> set chans"
        and "m = msg\<lparr>channel := Some (channel_id ch)\<rparr>"
      by blast
    then show ?thesis by blast
  qed
  from one same show ?thesis by blast
qed

theorem one_message_for_all_channels_witness:
  "length (sent (module_exports ''Tuvix''
       (pull_request_reopened
          (example_payload (example_pull_request [\<lparr>name = ''tuvix''\<rparr>]))))) = 1
   \<and> ChatPostMessage ''xoxb-2'' (example_message\<lparr>channel := Some ''C02''\<rparr>)
       \<in> set (calls (drain example_message
           (sendSlackMessage [first_workspace, second_workspace] example_message)))
   \<and> (\<exists>ch :: slack_channel. example_message\<lparr>channel := Some ''C02''\<rparr>
         = example_message\<lparr>channel := Some (channel_id ch)\<rparr>)"
proof -
  let ?ev = "pull_request_reopened (example_payload (example_pull_request [\<lparr>name = ''tuvix''\<rparr>]))"
  let ?cs = "[first_workspace, second_workspace]"
  let ?s = "drain example_message (sendSlackMessage ?cs example_message)"
  have run: "event_loop example_message (sendSlackMessage ?cs example_message) ?s"
    using drain_event_loop [of example_message "sendSlackMessage ?cs example_message"]
    by blast
  have post: "ChatPostMessage ''xoxb-2'' (example_message\<lparr>channel := Some ''C02''\<rparr>)
      \<in> set (calls ?s)"
    by (simp add: drain_two_workspaces)
  have "sent (module_exports ''Tuvix'' ?ev) \<noteq> []"
    by (simp add: handleReopened_def isTargeted_def PR_LABEL_Tuvix example_payload_def
        example_pull_request_def Let_def)
  moreover
  note t = one_message_for_all_channels
    [of "''Tuvix''" ?ev example_message ?cs ?s "''xoxb-2''"
      "example_message\<lparr>channel := Some ''C02''\<rparr>"]
  from t have "length (sent (module_exports ''Tuvix'' ?ev)) \<le> 1"
    by blast
  ultimately have "length (sent (module_exports ''Tuvix'' ?ev)) = 1"
    by (cases "sent (module_exports ''Tuvix'' ?ev)") simp_all
  moreover from t run post
  have "\<exists>ch :: slack_channel. example_message\<lparr>channel := Some ''C02''\<rparr>
         = example_message\<lparr>channel := Some (channel_id ch)\<rparr>"
    by blast
  ultimately show ?thesis using post by blast
qed

end
